theory Spec2Isabelle
  imports Main "HOL-Library.Multiset" "HOL-Library.AList"
begin

section \<open>Python values, documents and errors\<close>

text \<open>
  Metadata values are dynamically typed in the source. The fragment kept here is what the
  reducer can tell apart: \<open>None\<close>, strings and integers, with Python's truthiness
  (\<open>None\<close>, the empty string and \<open>0\<close> are falsy).
\<close>

datatype pyval = PNone | PStr string | PInt int

fun truthy :: "pyval \<Rightarrow> bool" where
  "truthy PNone = False"
| "truthy (PStr s) = (s \<noteq> [])"
| "truthy (PInt n) = (n \<noteq> 0)"

type_synonym pydict = "(string \<times> pyval) list"

text \<open>
  A dict is the list of its entries, in insertion order, with no key twice.
  \<open>d.get(k, default)\<close> looks a key up; \<open>{**d, k: v}\<close> is \<open>AList.update k v d\<close>, which
  replaces the value of a key that is present and appends the entry otherwise.
\<close>

definition dict_get :: "pydict \<Rightarrow> string \<Rightarrow> pyval \<Rightarrow> pyval" where
  "dict_get d k dflt = (case map_of d k of None \<Rightarrow> dflt | Some v \<Rightarrow> v)"

text \<open>A langchain \<open>Document\<close>: its text and its metadata dict (always a dict).\<close>

record document =
  page_content :: string
  metadata :: pydict

text \<open>
  The exceptions the code raises or lets through. \<open>ExternalError\<close> stands for whatever a
  chat model, a retriever or a vector store raises.
\<close>

datatype error =
    TypeError
  | KeyError string
  | ValueError
  | NotImplementedError string
  | FileNotFoundError
  | JSONDecodeError
  | OSError
  | ExternalError string

section \<open>The document reducer (src/shared/utils.py)\<close>

text \<open>
  \<open>str(uuid.UUID(h))\<close> for the 32 hexadecimal digits \<open>h\<close> of an MD5 digest: the digits
  grouped 8-4-4-4-12 with dashes.
\<close>

definition uuid_str :: "string \<Rightarrow> string" where
  "uuid_str h =
     take 8 h @ ''-'' @ take 4 (drop 8 h) @ ''-'' @ take 4 (drop 12 h) @ ''-'' @
     take 4 (drop 16 h) @ ''-'' @ drop 20 h"

text \<open>
  \<open>_generate_uuid\<close>. The digest \<open>hashlib.md5(s.encode()).hexdigest()\<close> is library code and
  is taken as the parameter \<open>md5\<close>.
\<close>

definition generate_uuid :: "(string \<Rightarrow> string) \<Rightarrow> string \<Rightarrow> string" where
  "generate_uuid md5 txt = uuid_str (md5 txt)"

text \<open>
  The items of a list-shaped input: a string, a dict (with its optional \<open>page_content\<close> and
  \<open>metadata\<close> keys), a \<open>Document\<close>, or anything else. The input itself is a string (the
  literal \<open>"delete"\<close> among them), a list, or anything else.
\<close>

datatype item =
    Str_item string
  | Dict_item "string option" "pydict option"
  | Doc_item document
  | Other_item

datatype new_input = New_str string | New_list "item list" | New_other

text \<open>
  The body of \<open>for item in new\<close>, with the two variables the loop mutates:
  \<open>existing_ids\<close> and \<open>new_list\<close>. \<open>Document(**item)\<close> requires \<open>page_content\<close>: a dict
  without it that reaches the constructor raises \<open>TypeError\<close>.
\<close>

fun reduce_loop ::
  "(string \<Rightarrow> string) \<Rightarrow> item list \<Rightarrow> pyval set \<Rightarrow> document list \<Rightarrow> error + document list"
where
  "reduce_loop md5 [] existing_ids new_list = Inr new_list"
| "reduce_loop md5 (Str_item s # rest) existing_ids new_list =
     (let item_id = PStr (generate_uuid md5 s) in
        reduce_loop md5 rest (insert item_id existing_ids)
          (new_list @ [\<lparr>page_content = s, metadata = [(''uuid'', item_id)]\<rparr>]))"
| "reduce_loop md5 (Dict_item pc md # rest) existing_ids new_list =
     (let mdata = (case md of None \<Rightarrow> [] | Some m \<Rightarrow> m);
          u = dict_get mdata ''uuid'' PNone;
          item_id = (if truthy u then u
                     else PStr (generate_uuid md5 (case pc of None \<Rightarrow> [] | Some c \<Rightarrow> c)))
      in if item_id \<notin> existing_ids then
           (case pc of
              None \<Rightarrow> Inl TypeError
            | Some c \<Rightarrow>
                reduce_loop md5 rest (insert item_id existing_ids)
                  (new_list @ [\<lparr>page_content = c, metadata = AList.update ''uuid'' item_id mdata\<rparr>]))
         else reduce_loop md5 rest existing_ids new_list)"
| "reduce_loop md5 (Doc_item d # rest) existing_ids new_list =
     (let u = dict_get (metadata d) ''uuid'' (PStr []);
          item_id = (if \<not> truthy u then PStr (generate_uuid md5 (page_content d)) else u);
          new_item = (if \<not> truthy u then d\<lparr>metadata := AList.update ''uuid'' item_id (metadata d)\<rparr>
                      else d)
      in if item_id \<notin> existing_ids then
           reduce_loop md5 rest (insert item_id existing_ids) (new_list @ [new_item])
         else reduce_loop md5 rest existing_ids new_list)"
| "reduce_loop md5 (Other_item # rest) existing_ids new_list =
     reduce_loop md5 rest existing_ids new_list"

text \<open>The id a stored document is known by: \<open>doc.metadata.get("uuid")\<close>.\<close>

definition doc_uuid :: "document \<Rightarrow> pyval" where
  "doc_uuid doc = dict_get (metadata doc) ''uuid'' PNone"

definition reduce_docs ::
  "(string \<Rightarrow> string) \<Rightarrow> document list option \<Rightarrow> new_input \<Rightarrow> error + document list"
where
  "reduce_docs md5 existing new =
     (if new = New_str ''delete'' then Inr []
      else
        let existing_list = (case existing of None \<Rightarrow> [] | Some ds \<Rightarrow> ds) in
        (case new of
           New_str s \<Rightarrow>
             Inr (existing_list @
                  [\<lparr>page_content = s, metadata = [(''uuid'', PStr (generate_uuid md5 s))]\<rparr>])
         | New_list items \<Rightarrow>
             (case reduce_loop md5 items (set (map doc_uuid existing_list)) [] of
                Inl e \<Rightarrow> Inl e
              | Inr new_list \<Rightarrow> Inr (existing_list @ new_list))
         | New_other \<Rightarrow> Inr existing_list))"







section \<open>State, configuration and external collaborators\<close>

text \<open>A chat message: the role and the text (src/shared/state.py uses \<open>AnyMessage\<close>).\<close>

record msg =
  role :: string
  content :: string


text \<open>\<open>Router\<close>: the field \<open>type\<close> is named \<open>rtype\<close> here.\<close>

record router =
  logic :: string
  rtype :: string

record agent_state =
  messages :: "msg list"
  router :: router
  steps :: "string list"
  documents :: "document list"



record index_state =
  idx_messages :: "msg list"
  idx_documents :: "document list"





section \<open>The researcher subgraph (src/graphs/researcher_graph.py)\<close>








section \<open>The main graph (src/graphs/main_graph.py)\<close>

text \<open>The partial update a node returns, one key each.\<close>

datatype update =
    Router_update router
  | Steps_update "string list"
  | Documents_update new_input
  | Messages_update "msg list"








definition mapping :: "(string \<times> string) list" where
  "mapping =
     [(''more-info'', ''ask_for_more_info''),
      (''general'', ''respond_to_general_query''),
      (''rag-research'', ''create_research_plan'')]"

text \<open>\<open>mapping[state.router["type"]]\<close>: a key outside the table raises \<open>KeyError\<close>.\<close>

definition route_query :: "agent_state \<Rightarrow> error + string" where
  "route_query s =
     (case map_of mapping (rtype (router s)) of
        None \<Rightarrow> Inl (KeyError (rtype (router s)))
      | Some node \<Rightarrow> Inr node)"

definition check_finished :: "agent_state \<Rightarrow> string" where
  "check_finished s = ''respond''"




text \<open>The edges of the builder; \<open>''__end__''\<close> is END.\<close>

definition next_node :: "string \<Rightarrow> agent_state \<Rightarrow> error + string" where
  "next_node node s =
     (if node = ''analyze_and_route_query'' then route_query s
      else if node = ''create_research_plan'' then Inr ''conduct_research''
      else if node = ''conduct_research'' then Inr (check_finished s)
      else if node = ''ask_for_more_info'' then Inr ''__end__''
      else if node = ''respond_to_general_query'' then Inr ''__end__''
      else if node = ''respond'' then Inr ''__end__''
      else Inl (KeyError node))"








section \<open>Collaborators for the examples\<close>



section \<open>Configuration objects (src/shared/configuration_manager.py)\<close>

text \<open>
  A \<open>RunnableConfig\<close> is a dict; its dict-valued keys (\<open>configurable\<close> among them) are kept,
  in order. The values under \<open>configurable\<close> are the strings of the recognised options.
\<close>

type_synonym runnable_config = "(string \<times> (string \<times> string) list) list"

record base_configuration =
  embedding_model :: string
  retriever_provider :: string

text \<open>
  The value of an attribute that is meant to hold a path: a string, or the
  \<open>dataclasses.Field\<close> object that a call of \<open>field(...)\<close> returns.
\<close>

datatype attr = Str_attr string | Field_attr

record index_configuration = base_configuration +
  docs_file :: attr

text \<open>
  \<open>IndexConfiguration\<close> is declared as a plain subclass of the dataclass
  \<open>BaseConfiguration\<close>, without the \<open>@dataclass\<close> decorator. Its dataclass fields are
  therefore those it inherits, and \<open>docs_file\<close> is a class attribute bound to the object
  returned by \<open>field(default="src/sample_docs.json", ...)\<close>.
\<close>

definition IndexConfiguration_fields :: "string list" where
  "IndexConfiguration_fields = [''embedding_model'', ''retriever_provider'', ''search_kwargs'']"

definition IndexConfiguration_docs_file :: attr where
  "IndexConfiguration_docs_file = Field_attr"

text \<open>
  \<open>IndexConfiguration.from_runnable_config\<close>: the entries of \<open>configurable\<close> whose key is a
  dataclass field are passed to the constructor, the others are dropped; a field not
  given takes its default. Reading \<open>docs_file\<close> of the instance finds the class attribute.
\<close>

definition from_runnable_config :: "runnable_config option \<Rightarrow> index_configuration" where
  "from_runnable_config config =
     (let configurable =
            (case config of
               None \<Rightarrow> []
             | Some c \<Rightarrow> (case map_of c ''configurable'' of None \<Rightarrow> [] | Some m \<Rightarrow> m));
          kwargs = filter (\<lambda>(k, v). k \<in> set IndexConfiguration_fields) configurable
      in \<lparr>embedding_model =
            (case map_of kwargs ''embedding_model'' of None \<Rightarrow> ''ollama/bge-m3:latest'' | Some v \<Rightarrow> v),
          retriever_provider =
            (case map_of kwargs ''retriever_provider'' of None \<Rightarrow> ''elastic-local'' | Some v \<Rightarrow> v),
          docs_file = IndexConfiguration_docs_file\<rparr>)"

section \<open>The index graph (src/graphs/index_graph.py)\<close>

text \<open>
  What \<open>index_docs\<close> reaches outside the repository: the files, \<open>json.load\<close> (\<open>None\<close> when
  the text is not JSON) and the retriever's \<open>aadd_documents\<close> on a vector store, which
  returns the store it leaves and the exception it raised, if any.
\<close>

datatype file_result = No_such_file | Unreadable | File_text string

record 'store index_env =
  files :: "string \<Rightarrow> file_result"
  json_load :: "string \<Rightarrow> new_input option"
  aadd_documents :: "'store \<Rightarrow> document list \<Rightarrow> error option \<times> 'store"

text \<open>\<open>open(path)\<close>: a path that is not a string (or bytes, or path-like) raises \<open>TypeError\<close>.\<close>

definition open_file :: "(string \<Rightarrow> file_result) \<Rightarrow> attr \<Rightarrow> error + string" where
  "open_file fs path =
     (case path of
        Field_attr \<Rightarrow> Inl TypeError
      | Str_attr p \<Rightarrow>
          (case fs p of
             No_such_file \<Rightarrow> Inl FileNotFoundError
           | Unreadable \<Rightarrow> Inl OSError
           | File_text t \<Rightarrow> Inr t))"

text \<open>
  \<open>index_docs\<close>. The result is what the call returns or raises, and the vector store
  afterwards; the value returned stands for \<open>{"documents": "delete"}\<close>.
\<close>

definition index_docs ::
  "(string \<Rightarrow> string) \<Rightarrow> 'store index_env \<Rightarrow> runnable_config option \<Rightarrow> index_state \<Rightarrow> 'store
     \<Rightarrow> (error + new_input) \<times> 'store"
where
  "index_docs md5 ie config state store =
     (if config = None \<or> config = Some [] then (Inl ValueError, store)
      else
        let configuration = from_runnable_config config;
            docs0 = idx_documents state;
            loaded =
              (if docs0 = [] then
                 (case (case open_file (files ie) (docs_file configuration) of
                          Inl err \<Rightarrow> Inl err
                        | Inr f \<Rightarrow>
                            (case json_load ie f of
                               None \<Rightarrow> Inl JSONDecodeError
                             | Some serialized_docs \<Rightarrow> reduce_docs md5 (Some []) serialized_docs))
                  of
                    Inl FileNotFoundError \<Rightarrow> Inr []
                  | Inl JSONDecodeError \<Rightarrow> Inr []
                  | Inl err \<Rightarrow> Inl err
                  | Inr docs \<Rightarrow> Inr docs)
               else Inr docs0)
        in case loaded of
             Inl err \<Rightarrow> (Inl err, store)
           | Inr docs \<Rightarrow>
               (if docs \<noteq> [] then
                  (case aadd_documents ie store docs of
                     (Some err, store') \<Rightarrow> (Inl err, store')
                   | (None, store') \<Rightarrow> (Inr (New_str ''delete''), store'))
                else (Inr (New_str ''delete''), store)))"

section \<open>The Milvus CRUD adapter (src/crud/milvus_crud_manager.py)\<close>

record milvus_crud_manager =
  configuration :: base_configuration

text \<open>
  \<open>MilvusCRUDManager.delete_documents\<close>: its whole body is the \<open>raise\<close>. The result is what
  the call returns or raises, and the vector store afterwards.
\<close>

definition delete_documents ::
  "milvus_crud_manager \<Rightarrow> string list \<Rightarrow> 'store \<Rightarrow> (error + bool) \<times> 'store"
where
  "delete_documents self ids store =
     (Inl (NotImplementedError
             (''Delete operation by IDs not implemented for '' @
              retriever_provider (configuration self))),
      store)"


section \<open>Properties of the reducer\<close>

text \<open>
  C3. Whatever the existing collection is, reducing it with the delete signal gives the
  empty collection.
\<close>

theorem reduce_docs_delete: "reduce_docs md5 existing (New_str ''delete'') = Inr []"
  by (simp add: reduce_docs_def)



subsection \<open>The loop on dicts and documents\<close>






subsection \<open>The id format\<close>




text \<open>
  C1. The string branch of the loop appends without asking whether the id is known: of
  two equal strings in one batch both are kept, and a string whose id an existing
  document carries is appended once more.
\<close>

theorem reduce_docs_string_items_repeat:
  "reduce_docs md5 (Some []) (New_list [Str_item ''a'', Str_item ''a'']) =
     Inr [\<lparr>page_content = ''a'', metadata = [(''uuid'', PStr (generate_uuid md5 ''a''))]\<rparr>,
          \<lparr>page_content = ''a'', metadata = [(''uuid'', PStr (generate_uuid md5 ''a''))]\<rparr>]
   \<and> reduce_docs md5
       (Some [\<lparr>page_content = ''a'', metadata = [(''uuid'', PStr (generate_uuid md5 ''a''))]\<rparr>])
       (New_list [Str_item ''a'']) =
     Inr [\<lparr>page_content = ''a'', metadata = [(''uuid'', PStr (generate_uuid md5 ''a''))]\<rparr>,
          \<lparr>page_content = ''a'', metadata = [(''uuid'', PStr (generate_uuid md5 ''a''))]\<rparr>]"
  by (simp add: reduce_docs_def Let_def)





text \<open>The loop either raises the \<open>TypeError\<close> or returns what it was given, extended.\<close>

lemma reduce_loop_total:
  "reduce_loop md5 items ids acc = Inl TypeError
   \<or> (\<exists>added. reduce_loop md5 items ids acc = Inr (acc @ added))"
proof (induction items arbitrary: ids acc)
  case Nil
  then show ?case by simp
next
  case (Cons it rest)
  have app: "\<exists>added. r = Inr (acc @ added)" if "r = Inr ((acc @ [d]) @ added')" for r d added'
    using that by simp
  show ?case
  proof (cases it)
    case (Str_item s)
    let ?d = "\<lparr>page_content = s, metadata = [(''uuid'', PStr (generate_uuid md5 s))]\<rparr>"
    have "reduce_loop md5 (it # rest) ids acc =
          reduce_loop md5 rest (insert (PStr (generate_uuid md5 s)) ids) (acc @ [?d])"
      by (simp add: Str_item Let_def)
    with Cons [of "insert (PStr (generate_uuid md5 s)) ids" "acc @ [?d]"]
    show ?thesis by (metis app)
  next
    case (Dict_item pc md)
    define mdata where "mdata = (case md of None \<Rightarrow> [] | Some m \<Rightarrow> m)"
    define item_id where
      "item_id = (if truthy (dict_get mdata ''uuid'' PNone) then dict_get mdata ''uuid'' PNone
                  else PStr (generate_uuid md5 (case pc of None \<Rightarrow> [] | Some c \<Rightarrow> c)))"
    have step: "reduce_loop md5 (it # rest) ids acc =
      (if item_id \<notin> ids then
         (case pc of
            None \<Rightarrow> Inl TypeError
          | Some c \<Rightarrow>
              reduce_loop md5 rest (insert item_id ids)
                (acc @ [\<lparr>page_content = c, metadata = AList.update ''uuid'' item_id mdata\<rparr>]))
       else reduce_loop md5 rest ids acc)"
      unfolding Dict_item item_id_def mdata_def by (simp add: Let_def)
    show ?thesis
    proof (cases "item_id \<in> ids")
      case True
      with Cons [of ids acc] step show ?thesis by simp
    next
      case False
      show ?thesis
      proof (cases pc)
        case None
        with False step show ?thesis by simp
      next
        case (Some c)
        let ?d = "\<lparr>page_content = c, metadata = AList.update ''uuid'' item_id mdata\<rparr>"
        have "reduce_loop md5 (it # rest) ids acc =
              reduce_loop md5 rest (insert item_id ids) (acc @ [?d])"
          using step Some False by simp
        with Cons [of "insert item_id ids" "acc @ [?d]"]
        show ?thesis by (metis app)
      qed
    qed
  next
    case (Doc_item d)
    define u where "u = dict_get (metadata d) ''uuid'' (PStr [])"
    define item_id where
      "item_id = (if \<not> truthy u then PStr (generate_uuid md5 (page_content d)) else u)"
    define new_item where
      "new_item = (if \<not> truthy u then d\<lparr>metadata := AList.update ''uuid'' item_id (metadata d)\<rparr> else d)"
    have step: "reduce_loop md5 (it # rest) ids acc =
      (if item_id \<notin> ids then reduce_loop md5 rest (insert item_id ids) (acc @ [new_item])
       else reduce_loop md5 rest ids acc)"
      unfolding Doc_item item_id_def new_item_def u_def by (simp add: Let_def)
    show ?thesis
    proof (cases "item_id \<in> ids")
      case True
      with Cons [of ids acc] step show ?thesis by simp
    next
      case False
      then have "reduce_loop md5 (it # rest) ids acc =
                 reduce_loop md5 rest (insert item_id ids) (acc @ [new_item])"
        using step by simp
      with Cons [of "insert item_id ids" "acc @ [new_item]"]
      show ?thesis by (metis app)
    qed
  next
    case Other_item
    with Cons [of ids acc] show ?thesis by simp
  qed
qed

text \<open>
  C10. For a new input other than the delete signal the reducer either raises (the
  \<open>TypeError\<close> of a dict without \<open>page_content\<close>) or returns the existing documents,
  unchanged and in their order, followed by what it appended.
\<close>

theorem reduce_docs_keeps_existing:
  assumes "new \<noteq> New_str ''delete''"
  shows "reduce_docs md5 existing new = Inl TypeError
         \<or> (\<exists>added. reduce_docs md5 existing new =
                Inr ((case existing of None \<Rightarrow> [] | Some ds \<Rightarrow> ds) @ added))"
proof (cases new)
  case (New_str s)
  with assms show ?thesis by (simp add: reduce_docs_def)
next
  case (New_list items)
  define existing_list where "existing_list = (case existing of None \<Rightarrow> [] | Some ds \<Rightarrow> ds)"
  from reduce_loop_total [of md5 items "set (map doc_uuid existing_list)" "[]"]
  show ?thesis
    using New_list by (auto simp: reduce_docs_def existing_list_def)
next
  case New_other
  then show ?thesis by (simp add: reduce_docs_def)
qed

theorem reduce_docs_keeps_existing_witness:
  "New_list [Str_item ''b'', Dict_item (Some ''a'') None] \<noteq> New_str ''delete''
   \<and> reduce_docs id
       (Some [\<lparr>page_content = ''a'', metadata = [(''uuid'', PStr (generate_uuid id ''a''))]\<rparr>])
       (New_list [Str_item ''b'', Dict_item (Some ''a'') None]) =
     Inr ([\<lparr>page_content = ''a'', metadata = [(''uuid'', PStr (generate_uuid id ''a''))]\<rparr>] @
          [\<lparr>page_content = ''b'', metadata = [(''uuid'', PStr (generate_uuid id ''b''))]\<rparr>])"
  using reduce_docs_keeps_existing [of "New_list [Str_item ''b'', Dict_item (Some ''a'') None]"
      id
      "Some [\<lparr>page_content = ''a'', metadata = [(''uuid'', PStr (generate_uuid id ''a''))]\<rparr>]"]
  by (simp add: reduce_docs_def Let_def dict_get_def doc_uuid_def)


section \<open>Routing\<close>

text \<open>
  C5. For each of the three classifications \<open>route_query\<close> returns the node the table
  gives it, and that node is where the graph goes after \<open>analyze_and_route_query\<close>:
  \<open>more-info\<close> to \<open>ask_for_more_info\<close>, \<open>general\<close> to \<open>respond_to_general_query\<close>,
  \<open>rag-research\<close> to \<open>create_research_plan\<close>.
\<close>

theorem route_query_mandated:
  "(rtype (router s) = ''more-info'' \<longrightarrow>
      route_query s = Inr ''ask_for_more_info''
      \<and> next_node ''analyze_and_route_query'' s = Inr ''ask_for_more_info'')
   \<and> (rtype (router s) = ''general'' \<longrightarrow>
      route_query s = Inr ''respond_to_general_query''
      \<and> next_node ''analyze_and_route_query'' s = Inr ''respond_to_general_query'')
   \<and> (rtype (router s) = ''rag-research'' \<longrightarrow>
      route_query s = Inr ''create_research_plan''
      \<and> next_node ''analyze_and_route_query'' s = Inr ''create_research_plan'')"
  by (simp add: route_query_def next_node_def mapping_def)

theorem route_query_mandated_witness:
  "route_query \<lparr>messages = [], router = \<lparr>logic = ''vague'', rtype = ''more-info''\<rparr>,
                 steps = [], documents = []\<rparr> = Inr ''ask_for_more_info''
   \<and> route_query \<lparr>messages = [], router = \<lparr>logic = ''chat'', rtype = ''general''\<rparr>,
                   steps = [], documents = []\<rparr> = Inr ''respond_to_general_query''
   \<and> route_query \<lparr>messages = [], router = \<lparr>logic = ''docs'', rtype = ''rag-research''\<rparr>,
                   steps = [], documents = []\<rparr> = Inr ''create_research_plan''"
  using
    route_query_mandated [of "\<lparr>messages = [], router = \<lparr>logic = ''vague'', rtype = ''more-info''\<rparr>,
                 steps = [], documents = []\<rparr>"]
    route_query_mandated [of "\<lparr>messages = [], router = \<lparr>logic = ''chat'', rtype = ''general''\<rparr>,
                 steps = [], documents = []\<rparr>"]
    route_query_mandated [of "\<lparr>messages = [], router = \<lparr>logic = ''docs'', rtype = ''rag-research''\<rparr>,
                 steps = [], documents = []\<rparr>"]
  by simp

section \<open>Indexing and the Milvus adapter\<close>

text \<open>
  C8. With a configuration given and no documents in the state, \<open>index_docs\<close> raises
  \<open>TypeError\<close> whatever the files are: \<open>open\<close> receives the \<open>Field\<close> object bound to
  \<open>IndexConfiguration.docs_file\<close>, and the handlers for a missing file and for malformed
  JSON do not catch that. The missing default file is never reached.
\<close>

theorem index_docs_no_documents_raises:
  "index_docs md5 ie (Some (kv # cfg)) \<lparr>idx_messages = ms, idx_documents = []\<rparr> store =
     (Inl TypeError, store)"
  by (simp add: index_docs_def from_runnable_config_def IndexConfiguration_docs_file_def
      open_file_def Let_def)

text \<open>
  C9. For every list of ids, \<open>delete_documents\<close> of the Milvus adapter raises
  \<open>NotImplementedError\<close>, returns no success value, and leaves the store as it was.
\<close>

theorem milvus_delete_documents_unsupported:
  "(\<exists>m. fst (delete_documents self ids store) = Inl (NotImplementedError m))
   \<and> fst (delete_documents self ids store) \<noteq> Inr ok
   \<and> snd (delete_documents self ids store) = store"
  by (simp add: delete_documents_def)


section \<open>The researcher subgraph\<close>







section \<open>The main graph\<close>









end
